theory Spec2Isabelle
  imports Main
begin

section \<open>Python values and text\<close>

text \<open>
  A Python \<open>str\<close> is a sequence of Unicode code points; \<open>len\<close> and the width of a
  format field count code points. The table header of \<open>display_trains\<close> is Cyrillic,
  so a text is modelled as the list of its code points. ASCII literals of the source
  are written through \<open>ascii\<close>.
\<close>

type_synonym pystr = "nat list"

definition ascii :: "string \<Rightarrow> pystr" where
  "ascii s = map of_char s"

text \<open>
  The values that travel between the command line, the database rows and the
  renderer: \<open>None\<close>, an \<open>int\<close> (unbounded) and a \<open>str\<close>.
\<close>

datatype pyval = PNone | PInt int | PStr pystr

text \<open>
  Every way the program stops early. The causes of \<open>sqlite3.OperationalError\<close> are
  the ones name resolution of a statement can produce, an index that already has the
  name of a table to create, and a path that cannot be opened; \<open>DatabaseError\<close> is a
  file that is not a database; \<open>SystemExit\<close> is argparse
  leaving the process with a status. \<open>Unsupported\<close> is no behaviour of the program: it
  marks a command line whose syntax the model of argparse below does not cover.
\<close>

datatype sql_error =
    NoSuchTable string
  | NoSuchColumn string
  | AmbiguousColumn string
  | NoColumnNamed string string
  | IndexNamed string
  | UnableToOpen

datatype error =
    OperationalError sql_error
  | DatabaseError
  | IntegrityError string
  | ProgrammingError
  | OverflowError
  | IndexError
  | AttributeError string
  | TypeError
  | ValueError
  | SystemExit nat
  | Unsupported

subsection \<open>\<open>str.format\<close> with a fill width\<close>

text \<open>\<open>str(i)\<close> for an \<open>int\<close>: the decimal digits, with a minus sign below zero.\<close>

fun digit_chars :: "nat \<Rightarrow> pystr" where
  "digit_chars n = (if n < 10 then [48 + n] else digit_chars (n div 10) @ [48 + n mod 10])"

declare digit_chars.simps [simp del]

definition str_int :: "int \<Rightarrow> pystr" where
  "str_int i = (if i < 0 then 45 # digit_chars (nat (- i)) else digit_chars (nat i))"

text \<open>
  A replacement field \<open>{:<w}\<close>, \<open>{:>w}\<close> or \<open>{:^w}\<close>: the text is padded with spaces up
  to \<open>w\<close> code points and never cut. Centring puts the smaller half of the padding on
  the left.
\<close>

datatype align = AlignLeft | AlignRight | AlignCentre

definition spaces :: "nat \<Rightarrow> pystr" where
  "spaces n = replicate n 32"

fun pad :: "align \<Rightarrow> nat \<Rightarrow> pystr \<Rightarrow> pystr" where
  "pad AlignLeft w s = s @ spaces (w - length s)"
| "pad AlignRight w s = spaces (w - length s) @ s"
| "pad AlignCentre w s =
     spaces ((w - length s) div 2) @ s @ spaces ((w - length s) - (w - length s) div 2)"

text \<open>
  Python (3.11 and later) refuses to convert between an \<open>int\<close> and a decimal text of
  more than 4300 digits: \<open>ValueError\<close>. An \<open>int\<close> has more than 4300 digits when its
  absolute value reaches \<open>10 ^ 4300\<close>.
\<close>

definition int_max_str_digits :: nat where
  "int_max_str_digits = 4300"

definition digit_limit :: int where
  "digit_limit = 10 ^ int_max_str_digits"

text \<open>
  Formatting one value with an alignment and a width. \<open>None\<close> has no \<open>__format__\<close> for a
  non-empty format specification: Python raises \<open>TypeError\<close>.
\<close>

fun format_field :: "align \<Rightarrow> nat \<Rightarrow> pyval \<Rightarrow> error + pystr" where
  "format_field a w PNone = Inl TypeError"
| "format_field a w (PInt i) =
     (if digit_limit \<le> \<bar>i\<bar> then Inl ValueError else Inr (pad a w (str_int i)))"
| "format_field a w (PStr s) = Inr (pad a w s)"

section \<open>The table renderer: \<open>display_trains\<close>\<close>

text \<open>
  A record is a \<open>dict\<close> from key to value; \<open>train.get(k, '')\<close> reads a key with the
  empty text as default. Standard output is the list of the lines printed so far.
\<close>

type_synonym train = "string \<rightharpoonup> pyval"

type_synonym stdout = "pystr list"

definition dict_get :: "train \<Rightarrow> string \<Rightarrow> pyval" where
  "dict_get d k = (case d k of None \<Rightarrow> PStr [] | Some v \<Rightarrow> v)"

text \<open>The border \<open>'+-{}-+-{}-+-{}-+-{}-+'.format('-' * 4, '-' * 30, '-' * 20, '-' * 20)\<close>.\<close>

definition border_line :: pystr where
  "border_line =
     ascii ''+-'' @ replicate 4 45 @ ascii ''-+-'' @ replicate 30 45 @ ascii ''-+-''
       @ replicate 20 45 @ ascii ''-+-'' @ replicate 20 45 @ ascii ''-+''"

text \<open>
  The four header labels, as code points: the numero sign U+2116, and the Russian for
  "destination" (16 letters and a space), "train number" (12) and "departure time"
  (17), as the source spells them.
\<close>

definition label_index :: pystr where
  "label_index = [8470]"

definition label_punkt :: pystr where
  "label_punkt = [1055, 1091, 1085, 1082, 1090, 32,
                  1085, 1072, 1079, 1085, 1072, 1095, 1080, 1085, 1080, 1103]"

definition label_nomer :: pystr where
  "label_nomer = [1053, 1086, 1084, 1077, 1088, 32, 1087, 1086, 1077, 1079, 1076, 1072]"

definition label_time :: pystr where
  "label_time = [1074, 1088, 1077, 1084, 1103, 32,
                 1086, 1090, 1087, 1088, 1072, 1074, 1083, 1077, 1085, 1080, 1103]"

text \<open>The header \<open>'| {:^4} | {:^30} | {:^20} | {:^20} |'\<close> over the four labels.\<close>

definition header_line :: pystr where
  "header_line =
     ascii ''| '' @ pad AlignCentre 4 label_index @ ascii '' | ''
       @ pad AlignCentre 30 label_punkt @ ascii '' | ''
       @ pad AlignCentre 20 label_nomer @ ascii '' | ''
       @ pad AlignCentre 20 label_time @ ascii '' |''"

text \<open>
  A data row \<open>'| {:>4} | {:<30} | {:<20} |  {:<20} |'\<close> (two spaces before the last
  field, as in the source) over the index and the three fields of the record. The
  fields are formatted left to right; the first that cannot be formatted raises.
\<close>

definition format_row :: "nat \<Rightarrow> train \<Rightarrow> error + pystr" where
  "format_row idx t =
     (case format_field AlignRight 4 (PInt (int idx)) of Inl e \<Rightarrow> Inl e | Inr c0 \<Rightarrow>
     (case format_field AlignLeft 30 (dict_get t ''punkt_nazn'') of Inl e \<Rightarrow> Inl e | Inr c1 \<Rightarrow>
     (case format_field AlignLeft 20 (dict_get t ''nomer'') of Inl e \<Rightarrow> Inl e | Inr c2 \<Rightarrow>
     (case format_field AlignLeft 20 (dict_get t ''time'') of Inl e \<Rightarrow> Inl e | Inr c3 \<Rightarrow>
        Inr (ascii ''| '' @ c0 @ ascii '' | '' @ c1 @ ascii '' | '' @ c2 @ ascii '' |  ''
               @ c3 @ ascii '' |'')))))"

text \<open>
  The loop \<open>for idx, train in enumerate(trains, 1)\<close>: one \<open>print\<close> per record. A row
  that raises leaves the lines printed before it on standard output.
\<close>

fun print_rows :: "nat \<Rightarrow> train list \<Rightarrow> stdout \<Rightarrow> (error + unit) \<times> stdout" where
  "print_rows idx [] out = (Inr (), out)"
| "print_rows idx (t # ts) out =
     (case format_row idx t of
        Inl e \<Rightarrow> (Inl e, out)
      | Inr row \<Rightarrow> print_rows (Suc idx) ts (out @ [row]))"

definition display_trains :: "train list \<Rightarrow> stdout \<Rightarrow> (error + unit) \<times> stdout" where
  "display_trains trains out =
     (if trains \<noteq> [] then
        (case print_rows 1 trains (out @ [border_line, header_line, border_line]) of
           (Inl e, out') \<Rightarrow> (Inl e, out')
         | (Inr u, out') \<Rightarrow> (Inr (), out' @ [border_line]))
      else (Inr (), out))"

section \<open>The SQLite database file\<close>

text \<open>
  What the program keeps in the file at \<open>database_path\<close>. A stored value is \<open>NULL\<close>, an
  integer or a text. A table is declared with the column features the \<open>CREATE TABLE\<close>
  statements of \<open>create_db\<close> use: a name, a declared type, \<open>NOT NULL\<close>, and
  \<open>INTEGER PRIMARY KEY AUTOINCREMENT\<close>; a \<open>FOREIGN KEY\<close> clause is recorded with the
  table (SQLite does not enforce it unless asked to, and the program never asks).
  Names are compared as written (every name of the source is lower case). Values are
  stored as bound and compared by kind and content: the conversions of SQLite's type
  affinity are outside this model, as are views, triggers and indices.
\<close>

datatype sqlval = SNull | SInt int | SText pystr

record column =
  col_name :: string
  col_type :: string
  col_notnull :: bool
  col_autoinc :: bool

type_synonym foreign_key = "string \<times> string \<times> string"

record table =
  tbl_columns :: "column list"
  tbl_foreign :: "foreign_key list"
  tbl_rows :: "sqlval list list"

type_synonym database = "string \<rightharpoonup> table"

text \<open>
  Files are told apart by the text of their path. A \<open>filesystem\<close> holds the database
  files only, so every path of it opens: a path that has no file yet gives an empty
  database (SQLite creates the file). Paths that do not open, and files that are not
  databases of tables, are the subject of \<open>create_db_at\<close> further down.
\<close>

type_synonym path = pystr

type_synonym filesystem = "path \<rightharpoonup> database"

definition file_content :: "filesystem \<Rightarrow> path \<Rightarrow> database" where
  "file_content fs p = (case fs p of None \<Rightarrow> Map.empty | Some db \<Rightarrow> db)"

subsection \<open>Values across the Python/SQLite boundary\<close>

text \<open>
  Binding a parameter: an \<open>int\<close> outside 64 bits raises \<open>OverflowError\<close>. Reading a
  cell back gives the Python value of its kind.
\<close>

fun py_to_sql :: "pyval \<Rightarrow> error + sqlval" where
  "py_to_sql PNone = Inr SNull"
| "py_to_sql (PInt i) =
     (if - (2 ^ 63) \<le> i \<and> i < 2 ^ 63 then Inr (SInt i) else Inl OverflowError)"
| "py_to_sql (PStr s) = Inr (SText s)"

fun sql_to_py :: "sqlval \<Rightarrow> pyval" where
  "sql_to_py SNull = PNone"
| "sql_to_py (SInt i) = PInt i"
| "sql_to_py (SText s) = PStr s"

fun bind_all :: "pyval list \<Rightarrow> error + sqlval list" where
  "bind_all [] = Inr []"
| "bind_all (p # ps) =
     (case py_to_sql p of
        Inl e \<Rightarrow> Inl e
      | Inr v \<Rightarrow> (case bind_all ps of Inl e \<Rightarrow> Inl e | Inr vs \<Rightarrow> Inr (v # vs)))"

text \<open>\<open>a = b\<close> in SQL: never true when a side is \<open>NULL\<close>.\<close>

definition sql_eq :: "sqlval \<Rightarrow> sqlval \<Rightarrow> bool" where
  "sql_eq a b = (a \<noteq> SNull \<and> b \<noteq> SNull \<and> a = b)"

text \<open>A cell of a row; a row of a table has one cell per column.\<close>

definition cell :: "sqlval list \<Rightarrow> nat \<Rightarrow> sqlval" where
  "cell r i = (if i < length r then r ! i else SNull)"

subsection \<open>Statements\<close>

text \<open>
  The three statement forms of the source, with \<open>?\<close> placeholders taken from the
  parameter tuple in order:
  \<^item> \<open>CREATE TABLE IF NOT EXISTS t (columns, foreign keys)\<close>;
  \<^item> \<open>SELECT cols FROM t [INNER JOIN u ON a = b] [WHERE c = ?]\<close>;
  \<^item> \<open>INSERT INTO t (cols) VALUES (?, ..., ?)\<close>.
  A column is named alone (\<open>group_title\<close>) or with its table (\<open>groups.group_title\<close>).
\<close>

datatype colref = Col string | TCol string string

datatype statement =
    CreateTableIfNotExists string "column list" "foreign_key list"
  | Select "colref list" string "(string \<times> colref \<times> colref) option" "colref option"
  | InsertInto string "string list"

subsection \<open>Name resolution\<close>

text \<open>
  SQLite prepares a statement before it runs it: every table of the \<open>FROM\<close> clause must
  exist (\<open>no such table\<close>), then every column must be found in a table of the \<open>FROM\<close>
  clause (\<open>no such column\<close>). A scope lists the tables of the \<open>FROM\<close> clause with their
  column names; a resolved column is its position in the joined row.
\<close>

type_synonym scope = "(string \<times> string list) list"

fun index_of :: "'a \<Rightarrow> 'a list \<Rightarrow> nat option" where
  "index_of x [] = None"
| "index_of x (y # ys) = (if x = y then Some 0 else map_option Suc (index_of x ys))"

fun resolve_qualified :: "string \<Rightarrow> string \<Rightarrow> scope \<Rightarrow> nat option" where
  "resolve_qualified t c [] = None"
| "resolve_qualified t c ((t', cs) # rest) =
     (if t = t' then index_of c cs
      else map_option (\<lambda>i. i + length cs) (resolve_qualified t c rest))"

fun candidates :: "string \<Rightarrow> scope \<Rightarrow> nat list" where
  "candidates c [] = []"
| "candidates c ((t, cs) # rest) =
     (case index_of c cs of None \<Rightarrow> [] | Some i \<Rightarrow> [i])
       @ map (\<lambda>i. i + length cs) (candidates c rest)"

fun resolve :: "scope \<Rightarrow> colref \<Rightarrow> error + nat" where
  "resolve sc (TCol t c) =
     (case resolve_qualified t c sc of
        None \<Rightarrow> Inl (OperationalError (NoSuchColumn (t @ ''.'' @ c)))
      | Some i \<Rightarrow> Inr i)"
| "resolve sc (Col c) =
     (case candidates c sc of
        [] \<Rightarrow> Inl (OperationalError (NoSuchColumn c))
      | [i] \<Rightarrow> Inr i
      | _ \<Rightarrow> Inl (OperationalError (AmbiguousColumn c)))"

fun resolve_all :: "scope \<Rightarrow> colref list \<Rightarrow> error + nat list" where
  "resolve_all sc [] = Inr []"
| "resolve_all sc (c # cs) =
     (case resolve sc c of
        Inl e \<Rightarrow> Inl e
      | Inr i \<Rightarrow> (case resolve_all sc cs of Inl e \<Rightarrow> Inl e | Inr is \<Rightarrow> Inr (i # is)))"

definition column_names :: "table \<Rightarrow> string list" where
  "column_names t = map col_name (tbl_columns t)"

subsection \<open>\<open>CREATE TABLE IF NOT EXISTS\<close>\<close>

text \<open>
  A table that exists under the name is left as it is, whatever its columns. Creating
  a table with an \<open>AUTOINCREMENT\<close> key also creates SQLite's bookkeeping table
  \<open>sqlite_sequence(name, seq)\<close> when the file has none yet.
\<close>

definition plain_column :: "string \<Rightarrow> column" where
  "plain_column n = \<lparr>col_name = n, col_type = [], col_notnull = False, col_autoinc = False\<rparr>"

definition sqlite_sequence :: table where
  "sqlite_sequence =
     \<lparr>tbl_columns = [plain_column ''name'', plain_column ''seq''],
      tbl_foreign = [], tbl_rows = []\<rparr>"

definition exec_create :: "string \<Rightarrow> column list \<Rightarrow> foreign_key list \<Rightarrow> database \<Rightarrow> database" where
  "exec_create name cols fks db =
     (case db name of
        Some t \<Rightarrow> db
      | None \<Rightarrow>
          (let db' = db(name \<mapsto> \<lparr>tbl_columns = cols, tbl_foreign = fks, tbl_rows = []\<rparr>)
           in if list_ex col_autoinc cols \<and> db' ''sqlite_sequence'' = None
              then db'(''sqlite_sequence'' \<mapsto> sqlite_sequence)
              else db'))"

subsection \<open>\<open>SELECT\<close>\<close>

text \<open>
  The tables of the \<open>FROM\<close> clause are looked up first, left to right; then the result
  columns, the two sides of \<open>ON\<close> and the column of \<open>WHERE\<close> are resolved; then the
  parameter is bound; then the rows are produced: every row of the first table with
  every row of the joined table, kept when \<open>ON\<close> and \<open>WHERE\<close> hold, in storage order.
\<close>

definition joined_rows :: "table \<Rightarrow> table option \<Rightarrow> sqlval list list" where
  "joined_rows t1 j =
     (case j of
        None \<Rightarrow> tbl_rows t1
      | Some t2 \<Rightarrow> concat (map (\<lambda>r1. map (\<lambda>r2. r1 @ r2) (tbl_rows t2)) (tbl_rows t1)))"

definition from_tables ::
  "string \<Rightarrow> (string \<times> colref \<times> colref) option \<Rightarrow> database \<Rightarrow>
   error + (table \<times> (string \<times> table) option)" where
  "from_tables frm join db =
     (case db frm of
        None \<Rightarrow> Inl (OperationalError (NoSuchTable frm))
      | Some t1 \<Rightarrow>
          (case join of
             None \<Rightarrow> Inr (t1, None)
           | Some (u, a, b) \<Rightarrow>
               (case db u of
                  None \<Rightarrow> Inl (OperationalError (NoSuchTable u))
                | Some t2 \<Rightarrow> Inr (t1, Some (u, t2)))))"

definition select_scope :: "string \<Rightarrow> table \<Rightarrow> (string \<times> table) option \<Rightarrow> scope" where
  "select_scope frm t1 j =
     (frm, column_names t1) # (case j of None \<Rightarrow> [] | Some (u, t2) \<Rightarrow> [(u, column_names t2)])"

definition on_columns :: "(string \<times> colref \<times> colref) option \<Rightarrow> colref list" where
  "on_columns join = (case join of None \<Rightarrow> [] | Some (u, a, b) \<Rightarrow> [a, b])"

definition where_columns :: "colref option \<Rightarrow> colref list" where
  "where_columns wher = (case wher of None \<Rightarrow> [] | Some c \<Rightarrow> [c])"

definition row_selected :: "nat list \<Rightarrow> nat list \<Rightarrow> sqlval list \<Rightarrow> sqlval list \<Rightarrow> bool" where
  "row_selected on_ix where_ix vals r =
     ((case on_ix of [i, k] \<Rightarrow> sql_eq (cell r i) (cell r k) | _ \<Rightarrow> True)
      \<and> list_all2 (\<lambda>i v. sql_eq (cell r i) v) where_ix vals)"

definition exec_select ::
  "colref list \<Rightarrow> string \<Rightarrow> (string \<times> colref \<times> colref) option \<Rightarrow> colref option \<Rightarrow>
   pyval list \<Rightarrow> database \<Rightarrow> error + sqlval list list" where
  "exec_select cols frm join wher params db =
     (case from_tables frm join db of
        Inl e \<Rightarrow> Inl e
      | Inr (t1, j) \<Rightarrow>
     (case resolve_all (select_scope frm t1 j) cols of
        Inl e \<Rightarrow> Inl e
      | Inr out_ix \<Rightarrow>
     (case resolve_all (select_scope frm t1 j) (on_columns join) of
        Inl e \<Rightarrow> Inl e
      | Inr on_ix \<Rightarrow>
     (case resolve_all (select_scope frm t1 j) (where_columns wher) of
        Inl e \<Rightarrow> Inl e
      | Inr where_ix \<Rightarrow>
          if length params \<noteq> length where_ix then Inl ProgrammingError
          else (case bind_all params of
                  Inl e \<Rightarrow> Inl e
                | Inr vals \<Rightarrow>
                    Inr (map (\<lambda>r. map (cell r) out_ix)
                           (filter (row_selected on_ix where_ix vals)
                              (joined_rows t1 (map_option snd j)))))))))"

subsection \<open>\<open>INSERT\<close>\<close>

text \<open>
  The table must exist and have every named column. A column that is not named gets
  \<open>NULL\<close>. An \<open>AUTOINCREMENT\<close> key left \<open>NULL\<close> gets one more than the largest key the
  table ever held (the larger of the keys stored and the count in \<open>sqlite_sequence\<close>).
  \<open>NOT NULL\<close> and the uniqueness of the key are checked before the row is appended.
\<close>

definition largest :: "int list \<Rightarrow> int" where
  "largest ks = fold max ks 0"

definition int_cells :: "nat \<Rightarrow> sqlval list list \<Rightarrow> int list" where
  "int_cells i rows = concat (map (\<lambda>r. case cell r i of SInt k \<Rightarrow> [k] | _ \<Rightarrow> []) rows)"

definition sequence_of :: "database \<Rightarrow> string \<Rightarrow> int" where
  "sequence_of db name =
     (case db ''sqlite_sequence'' of
        None \<Rightarrow> 0
      | Some s \<Rightarrow>
          largest (int_cells 1 (filter (\<lambda>r. cell r 0 = SText (ascii name)) (tbl_rows s))))"

definition record_sequence :: "string \<Rightarrow> int \<Rightarrow> database \<Rightarrow> database" where
  "record_sequence name k db =
     (case db ''sqlite_sequence'' of
        None \<Rightarrow> db
      | Some s \<Rightarrow>
          db(''sqlite_sequence'' \<mapsto>
               s\<lparr>tbl_rows :=
                    filter (\<lambda>r. cell r 0 \<noteq> SText (ascii name)) (tbl_rows s)
                      @ [[SText (ascii name), SInt (max k (sequence_of db name))]]\<rparr>))"

fun first_missing :: "string list \<Rightarrow> string list \<Rightarrow> string option" where
  "first_missing have [] = None"
| "first_missing have (c # cs) = (if c \<in> set have then first_missing have cs else Some c)"

fun first_null :: "column list \<Rightarrow> sqlval list \<Rightarrow> string option" where
  "first_null (c # cs) (v # vs) =
     (if col_notnull c \<and> v = SNull then Some (col_name c) else first_null cs vs)"
| "first_null _ _ = None"

definition store_row :: "string \<Rightarrow> table \<Rightarrow> (string \<times> sqlval) list \<Rightarrow> database \<Rightarrow> error + database" where
  "store_row name t given db =
     (let row0 = map (\<lambda>c. case map_of given (col_name c) of None \<Rightarrow> SNull | Some v \<Rightarrow> v)
                   (tbl_columns t)
      in
      case index_of True (map col_autoinc (tbl_columns t)) of
        None \<Rightarrow>
          (case first_null (tbl_columns t) row0 of
             Some c \<Rightarrow> Inl (IntegrityError (''NOT NULL constraint failed: '' @ name @ ''.'' @ c))
           | None \<Rightarrow> Inr (db(name \<mapsto> t\<lparr>tbl_rows := tbl_rows t @ [row0]\<rparr>)))
      | Some ki \<Rightarrow>
          (case cell row0 ki of
             SText s \<Rightarrow> Inl (IntegrityError ''datatype mismatch'')
           | SInt k \<Rightarrow>
               (case first_null (tbl_columns t) row0 of
                  Some c \<Rightarrow> Inl (IntegrityError (''NOT NULL constraint failed: '' @ name @ ''.'' @ c))
                | None \<Rightarrow>
                    if k \<in> set (int_cells ki (tbl_rows t))
                    then Inl (IntegrityError
                                (''UNIQUE constraint failed: '' @ name @ ''.''
                                   @ col_name (tbl_columns t ! ki)))
                    else Inr (record_sequence name k
                                (db(name \<mapsto> t\<lparr>tbl_rows := tbl_rows t @ [row0]\<rparr>))))
           | SNull \<Rightarrow>
               (let k = 1 + max (largest (int_cells ki (tbl_rows t))) (sequence_of db name);
                    row = row0[ki := SInt k]
                in case first_null (tbl_columns t) row of
                     Some c \<Rightarrow>
                       Inl (IntegrityError (''NOT NULL constraint failed: '' @ name @ ''.'' @ c))
                   | None \<Rightarrow>
                       Inr (record_sequence name k
                              (db(name \<mapsto> t\<lparr>tbl_rows := tbl_rows t @ [row]\<rparr>))))))"

definition exec_insert :: "string \<Rightarrow> string list \<Rightarrow> pyval list \<Rightarrow> database \<Rightarrow> error + database" where
  "exec_insert name cols params db =
     (case db name of
        None \<Rightarrow> Inl (OperationalError (NoSuchTable name))
      | Some t \<Rightarrow>
          (case first_missing (column_names t) cols of
             Some c \<Rightarrow> Inl (OperationalError (NoColumnNamed name c))
           | None \<Rightarrow>
               if length params \<noteq> length cols then Inl ProgrammingError
               else (case bind_all params of
                       Inl e \<Rightarrow> Inl e
                     | Inr vals \<Rightarrow> store_row name t (zip cols vals) db)))"

subsection \<open>Connections\<close>

text \<open>
  A connection of Python's \<open>sqlite3\<close> module sees its own uncommitted work. An
  \<open>INSERT\<close> opens a transaction; \<open>commit\<close> writes it to the file; a connection that is
  closed, or dropped by an exception, without \<open>commit\<close> loses it. \<open>CREATE TABLE\<close>
  outside a transaction is written at once.
\<close>

record connection =
  committed :: database
  working :: database
  in_transaction :: bool

definition connect :: "filesystem \<Rightarrow> path \<Rightarrow> connection" where
  "connect fs p =
     \<lparr>committed = file_content fs p, working = file_content fs p, in_transaction = False\<rparr>"

fun execute :: "statement \<Rightarrow> pyval list \<Rightarrow> connection \<Rightarrow> error + (sqlval list list \<times> connection)" where
  "execute (CreateTableIfNotExists name cols fks) params c =
     Inr ([], c\<lparr>committed := (if in_transaction c then committed c
                               else exec_create name cols fks (working c)),
                 working := exec_create name cols fks (working c)\<rparr>)"
| "execute (Select cols frm join wher) params c =
     (case exec_select cols frm join wher params (working c) of
        Inl e \<Rightarrow> Inl e
      | Inr rows \<Rightarrow> Inr (rows, c))"
| "execute (InsertInto name cols) params c =
     (case exec_insert name cols params (working c) of
        Inl e \<Rightarrow> Inl e
      | Inr db \<Rightarrow> Inr ([], c\<lparr>working := db, in_transaction := True\<rparr>))"

definition commit :: "connection \<Rightarrow> connection" where
  "commit c = c\<lparr>committed := working c, in_transaction := False\<rparr>"

definition close :: "filesystem \<Rightarrow> path \<Rightarrow> connection \<Rightarrow> filesystem" where
  "close fs p c = fs(p \<mapsto> committed c)"

definition fetchone :: "'a list \<Rightarrow> 'a option" where
  "fetchone rows = (case rows of [] \<Rightarrow> None | r # rs \<Rightarrow> Some r)"

section \<open>The schema initialiser: \<open>create_db\<close>\<close>

definition groups_columns :: "column list" where
  "groups_columns =
     [\<lparr>col_name = ''train_id'', col_type = ''INTEGER'', col_notnull = False, col_autoinc = True\<rparr>,
      \<lparr>col_name = ''train_title'', col_type = ''TEXT'', col_notnull = True, col_autoinc = False\<rparr>]"

definition students_columns :: "column list" where
  "students_columns =
     [\<lparr>col_name = ''train_id'', col_type = ''INTEGER'', col_notnull = False, col_autoinc = True\<rparr>,
      \<lparr>col_name = ''train_punkt'', col_type = ''TEXT'', col_notnull = True, col_autoinc = False\<rparr>,
      \<lparr>col_name = ''train_nomer'', col_type = ''INTEGER'', col_notnull = True, col_autoinc = False\<rparr>,
      \<lparr>col_name = ''train_time'', col_type = ''LIST'', col_notnull = True, col_autoinc = False\<rparr>]"

text \<open>
  The two statements of \<open>create_db\<close>: the tables are named \<open>groups\<close> and \<open>students\<close>.
  The function never commits; both statements run outside a transaction. On a
  \<open>filesystem\<close> the path opens and neither statement has a failing case; \<open>create_db_at\<close>
  below is the same function on a path that may not open.
\<close>

definition create_db :: "filesystem \<Rightarrow> path \<Rightarrow> (error + unit) \<times> filesystem" where
  "create_db fs database_path =
     (let conn = connect fs database_path in
      case execute (CreateTableIfNotExists ''groups'' groups_columns []) [] conn of
        Inl e \<Rightarrow> (Inl e, close fs database_path conn)
      | Inr (r1, conn1) \<Rightarrow>
          (case execute (CreateTableIfNotExists ''students'' students_columns
                           [(''train_id'', ''groups'', ''train_id'')]) [] conn1 of
             Inl e \<Rightarrow> (Inl e, close fs database_path conn1)
           | Inr (r2, conn2) \<Rightarrow> (Inr (), close fs database_path conn2)))"

subsection \<open>Paths that may not open\<close>

text \<open>
  What the operating system holds at a path: nothing yet, in a directory where a file
  can be created; nothing, with no directory to create a file in; a directory; a file
  that is not an SQLite database; or a database, given by its tables and the names
  of its indices. The empty path is the current directory (\<open>Path('')\<close> is \<open>Path('.')\<close>).
\<close>

datatype entry =
    Absent
  | Unreachable
  | Directory
  | OtherFile
  | DataFile database "string list"

type_synonym disk = "path \<Rightarrow> entry"

definition entry_at :: "disk \<Rightarrow> path \<Rightarrow> entry" where
  "entry_at d p = (if p = [] then Directory else d p)"

text \<open>
  \<open>sqlite3.connect\<close> raises \<open>unable to open database file\<close> for a directory and for a
  path without a directory. Where there is no file it creates an empty database. A
  file that is not a database is opened all the same: the first statement raises.
\<close>

definition connect_at :: "disk \<Rightarrow> path \<Rightarrow> error + entry" where
  "connect_at d p =
     (case entry_at d p of
        Absent \<Rightarrow> Inr (DataFile Map.empty [])
      | Unreachable \<Rightarrow> Inl (OperationalError UnableToOpen)
      | Directory \<Rightarrow> Inl (OperationalError UnableToOpen)
      | OtherFile \<Rightarrow> Inr OtherFile
      | DataFile db ix \<Rightarrow> Inr (DataFile db ix))"

text \<open>
  \<open>CREATE TABLE IF NOT EXISTS\<close> on what was opened: \<open>file is not a database\<close> for a
  file that is none; nothing to do where the table exists; \<open>there is already an index
  named ...\<close> where an index has the name; the new table otherwise.
\<close>

definition create_table_at ::
  "string \<Rightarrow> column list \<Rightarrow> foreign_key list \<Rightarrow> entry \<Rightarrow> error + entry" where
  "create_table_at name cols fks e =
     (case e of
        DataFile db ix \<Rightarrow>
          if db name = None \<and> name \<in> set ix then Inl (OperationalError (IndexNamed name))
          else Inr (DataFile (exec_create name cols fks db) ix)
      | _ \<Rightarrow> Inl DatabaseError)"

text \<open>
  \<open>create_db\<close> on such a path: the same two statements, each written to the file at
  once; an error leaves what was written before it.
\<close>

definition create_db_at :: "disk \<Rightarrow> path \<Rightarrow> (error + unit) \<times> disk" where
  "create_db_at d database_path =
     (case connect_at d database_path of
        Inl e \<Rightarrow> (Inl e, d)
      | Inr conn \<Rightarrow>
          (case create_table_at ''groups'' groups_columns [] conn of
             Inl e \<Rightarrow> (Inl e, d(database_path := conn))
           | Inr conn1 \<Rightarrow>
               (case create_table_at ''students'' students_columns
                       [(''train_id'', ''groups'', ''train_id'')] conn1 of
                  Inl e \<Rightarrow> (Inl e, d(database_path := conn1))
                | Inr conn2 \<Rightarrow> (Inr (), d(database_path := conn2)))))"

section \<open>The record writer: \<open>add_train\<close>\<close>

text \<open>
  The lookup reads \<open>train_nomer\<close> from a table \<open>trains\<close> by a column \<open>group_title\<close>; the
  first insert names a column \<open>group_title\<close> of \<open>groups\<close>; the second insert goes to
  \<open>trains\<close>. \<open>group_id\<close> is assigned on both branches and never read.
\<close>

definition add_train :: "filesystem \<Rightarrow> path \<Rightarrow> pyval \<Rightarrow> pyval \<Rightarrow> pyval \<Rightarrow> (error + unit) \<times> filesystem" where
  "add_train fs database_path punkt_nazn nomer time =
     (let conn = connect fs database_path in
      case execute (Select [Col ''train_nomer''] ''trains'' None (Some (Col ''group_title'')))
             [nomer] conn of
        Inl e \<Rightarrow> (Inl e, close fs database_path conn)
      | Inr (rows, conn1) \<Rightarrow>
          (case (case fetchone rows of
                   None \<Rightarrow> execute (InsertInto ''groups'' [''group_title'']) [nomer] conn1
                 | Some row \<Rightarrow> Inr ([], conn1)) of
             Inl e \<Rightarrow> (Inl e, close fs database_path conn1)
           | Inr (r2, conn2) \<Rightarrow>
               (case execute (InsertInto ''trains'' [''train_punkt'', ''train_nomer'', ''train_time''])
                       [punkt_nazn, nomer, time] conn2 of
                  Inl e \<Rightarrow> (Inl e, close fs database_path conn2)
                | Inr (r3, conn3) \<Rightarrow> (Inr (), close fs database_path (commit conn3)))))"

section \<open>The record readers: \<open>select_all\<close> and \<open>select_by_num\<close>\<close>

text \<open>
  Both build, for every row, the dict \<open>{"punkt_nazn": row[0], "nomer": row[1],
  "time": row[2]}\<close>.
\<close>

fun shape_row :: "sqlval list \<Rightarrow> error + train" where
  "shape_row (a # b # c # rest) =
     Inr [''punkt_nazn'' \<mapsto> sql_to_py a, ''nomer'' \<mapsto> sql_to_py b, ''time'' \<mapsto> sql_to_py c]"
| "shape_row _ = Inl IndexError"

fun shape_rows :: "sqlval list list \<Rightarrow> error + train list" where
  "shape_rows [] = Inr []"
| "shape_rows (r # rs) =
     (case shape_row r of
        Inl e \<Rightarrow> Inl e
      | Inr t \<Rightarrow> (case shape_rows rs of Inl e \<Rightarrow> Inl e | Inr ts \<Rightarrow> Inr (t # ts)))"

definition select_all :: "filesystem \<Rightarrow> path \<Rightarrow> (error + train list) \<times> filesystem" where
  "select_all fs database_path =
     (let conn = connect fs database_path in
      case execute
             (Select [TCol ''trains'' ''trains_punkt'', TCol ''groups'' ''group_title'',
                      TCol ''trains'' ''train_nomer'']
                ''trains''
                (Some (''groups'', TCol ''groups'' ''trains_nomer'', TCol ''trains'' ''trains_nomer''))
                None)
             [] conn of
        Inl e \<Rightarrow> (Inl e, close fs database_path conn)
      | Inr (rows, conn1) \<Rightarrow> (shape_rows rows, close fs database_path conn1))"

definition select_by_num :: "filesystem \<Rightarrow> path \<Rightarrow> pyval \<Rightarrow> (error + train list) \<times> filesystem" where
  "select_by_num fs database_path nomer =
     (let conn = connect fs database_path in
      case execute
             (Select [TCol ''trains'' ''train_punkt'', TCol ''groups'' ''group_title'',
                      TCol ''trains'' ''train_nomer'']
                ''trains''
                (Some (''groups'', TCol ''groups'' ''train_nomer'', TCol ''students'' ''train_nomer''))
                (Some (TCol ''groups'' ''group_title'')))
             [nomer] conn of
        Inl e \<Rightarrow> (Inl e, close fs database_path conn)
      | Inr (rows, conn1) \<Rightarrow> (shape_rows rows, close fs database_path conn1))"

section \<open>The command line: argparse and \<open>main\<close>\<close>

subsection \<open>Declared arguments\<close>

text \<open>
  What \<open>add_argument\<close> records of an option: its option strings, whether \<open>type=int\<close>,
  whether \<open>required=True\<close>, and its default (\<open>None\<close> when none is given). The attribute
  under which the parsed value is stored is not given anywhere in the source, so
  argparse derives it: the first option string that starts with two dashes, else the
  first option string, without its leading dashes and with \<open>-\<close> turned into \<open>_\<close>.
  The \<open>help\<close> text plays no part.
\<close>

record argument =
  option_strings :: "string list"
  arg_int :: bool
  arg_required :: bool
  arg_default :: pyval

definition dest_of :: "string list \<Rightarrow> string" where
  "dest_of opts =
     map (\<lambda>c. if c = CHR ''-'' then CHR ''_'' else c)
       (dropWhile (\<lambda>c. c = CHR ''-'')
          (case filter (\<lambda>s. take 2 s = ''--'') opts of
             l # ls \<Rightarrow> l
           | [] \<Rightarrow> (case opts of s # ss \<Rightarrow> s | [] \<Rightarrow> [])))"

text \<open>
  The parent parser \<open>file_parser\<close> declares \<open>--db\<close>; each of the three subparsers takes
  it over through \<open>parents=[file_parser]\<close>. The main parser \<open>trains\<close> itself declares
  only \<open>--version\<close> and the subparsers, whose name is stored under \<open>command\<close>.
\<close>

definition file_parser :: "pystr \<Rightarrow> argument list" where
  "file_parser default_db =
     [\<lparr>option_strings = [''--db''], arg_int = False, arg_required = False,
       arg_default = PStr default_db\<rparr>]"

definition add_parser :: "pystr \<Rightarrow> argument list" where
  "add_parser default_db =
     file_parser default_db @
     [\<lparr>option_strings = [''-p'', ''--punkt''], arg_int = False, arg_required = True,
       arg_default = PNone\<rparr>,
      \<lparr>option_strings = [''-n'', ''--nomer''], arg_int = True, arg_required = False,
       arg_default = PNone\<rparr>,
      \<lparr>option_strings = [''-t'', ''--time''], arg_int = True, arg_required = True,
       arg_default = PNone\<rparr>]"

definition display_parser :: "pystr \<Rightarrow> argument list" where
  "display_parser default_db = file_parser default_db"

definition select_parser :: "pystr \<Rightarrow> argument list" where
  "select_parser default_db =
     file_parser default_db @
     [\<lparr>option_strings = [''-s'', ''--select''], arg_int = False, arg_required = True,
       arg_default = PNone\<rparr>]"

definition subparsers :: "pystr \<Rightarrow> pystr \<Rightarrow> argument list option" where
  "subparsers default_db name =
     (if name = ascii ''add'' then Some (add_parser default_db)
      else if name = ascii ''display'' then Some (display_parser default_db)
      else if name = ascii ''select'' then Some (select_parser default_db)
      else None)"

subsection \<open>Parsing\<close>

text \<open>
  The result of parsing is a \<open>Namespace\<close>: attributes by name. Reading an attribute
  that was never stored raises \<open>AttributeError\<close>.
\<close>

type_synonym namespace = "string \<rightharpoonup> pyval"

definition getattr :: "namespace \<Rightarrow> string \<Rightarrow> error + pyval" where
  "getattr ns a = (case ns a of None \<Rightarrow> Inl (AttributeError a) | Some v \<Rightarrow> Inr v)"

text \<open>
  The syntax covered after a subcommand name: a sequence of pairs, an option string
  exactly as declared followed by its value in a token of its own. A text value does
  not start with a dash; an integer value is ASCII decimal digits with an optional
  minus sign, and \<open>int\<close> refuses more than 4300 of them, on which argparse exits with
  status 2. Everything else argparse accepts or rejects (abbreviated options,
  \<open>--opt=value\<close>, \<open>-h\<close>, other spellings of an integer) is \<open>Unsupported\<close> here.
\<close>

fun pairs :: "'a list \<Rightarrow> ('a \<times> 'a) list option" where
  "pairs [] = Some []"
| "pairs [x] = None"
| "pairs (x # y # rest) = map_option (\<lambda>ps. (x, y) # ps) (pairs rest)"

definition is_digit :: "nat \<Rightarrow> bool" where
  "is_digit c = (48 \<le> c \<and> c \<le> 57)"

definition decimal :: "pystr \<Rightarrow> nat" where
  "decimal ds = foldl (\<lambda>n c. 10 * n + (c - 48)) 0 ds"

definition int_of_digits :: "pystr \<Rightarrow> error + nat" where
  "int_of_digits ds =
     (if ds = [] \<or> \<not> list_all is_digit ds then Inl Unsupported
      else if int_max_str_digits < length ds then Inl (SystemExit 2)
      else Inr (decimal ds))"

definition int_of_token :: "pystr \<Rightarrow> error + int" where
  "int_of_token s =
     (case s of
        [] \<Rightarrow> Inl Unsupported
      | c # cs \<Rightarrow>
          if c = 45 then (case int_of_digits cs of Inl e \<Rightarrow> Inl e | Inr n \<Rightarrow> Inr (- int n))
          else (case int_of_digits s of Inl e \<Rightarrow> Inl e | Inr n \<Rightarrow> Inr (int n)))"

definition convert :: "argument \<Rightarrow> pystr \<Rightarrow> error + pyval" where
  "convert a v =
     (if arg_int a then (case int_of_token v of Inl e \<Rightarrow> Inl e | Inr i \<Rightarrow> Inr (PInt i))
      else if take 1 v = [45] then Inl Unsupported
      else Inr (PStr v))"

fun stores :: "argument list \<Rightarrow> (pystr \<times> pystr) list \<Rightarrow> error + (string \<times> pyval) list" where
  "stores spec [] = Inr []"
| "stores spec ((flag, v) # rest) =
     (case find (\<lambda>a. flag \<in> set (map ascii (option_strings a))) spec of
        None \<Rightarrow> Inl Unsupported
      | Some a \<Rightarrow>
          (case convert a v of
             Inl e \<Rightarrow> Inl e
           | Inr x \<Rightarrow>
               (case stores spec rest of
                  Inl e \<Rightarrow> Inl e
                | Inr others \<Rightarrow> Inr ((dest_of (option_strings a), x) # others))))"

text \<open>
  A subparser starts from the defaults of its arguments, stores the values in the
  order given (a later value replaces an earlier one), and exits with status 2 when a
  required argument was not given.
\<close>

definition defaults :: "argument list \<Rightarrow> namespace" where
  "defaults spec = map_of (map (\<lambda>a. (dest_of (option_strings a), arg_default a)) spec)"

definition parse_options :: "argument list \<Rightarrow> pystr list \<Rightarrow> error + namespace" where
  "parse_options spec tokens =
     (case pairs tokens of
        None \<Rightarrow> Inl Unsupported
      | Some ps \<Rightarrow>
          (case stores spec ps of
             Inl e \<Rightarrow> Inl e
           | Inr given \<Rightarrow>
               if list_ex (\<lambda>a. arg_required a \<and> dest_of (option_strings a) \<notin> set (map fst given)) spec
               then Inl (SystemExit 2)
               else Inr (fold (\<lambda>(d, x) ns. ns(d \<mapsto> x)) given (defaults spec))))"

text \<open>
  \<open>parser.parse_args(command_line)\<close>. With no token at all the subcommand is not
  required: the namespace holds \<open>command = None\<close> and nothing else. \<open>--version\<close> prints
  \<open>trains 0.1.0\<close> and exits with status 0. A first token that is no option and none of
  \<open>add\<close>, \<open>display\<close>, \<open>select\<close> is an invalid choice: exit status 2.
\<close>

definition parse_args :: "pystr \<Rightarrow> pystr list \<Rightarrow> stdout \<Rightarrow> (error + namespace) \<times> stdout" where
  "parse_args default_db command_line out =
     (case command_line of
        [] \<Rightarrow> (Inr [''command'' \<mapsto> PNone], out)
      | tok # rest \<Rightarrow>
          if command_line = [ascii ''--version''] then (Inl (SystemExit 0), out @ [ascii ''trains 0.1.0''])
          else if take 1 tok = [45] then (Inl Unsupported, out)
          else (case subparsers default_db tok of
                  None \<Rightarrow> (Inl (SystemExit 2), out)
                | Some spec \<Rightarrow>
                    (case parse_options spec rest of
                       Inl e \<Rightarrow> (Inl e, out)
                     | Inr ns \<Rightarrow> (Inr (ns(''command'' \<mapsto> PStr tok)), out))))"

subsection \<open>\<open>main\<close>\<close>

text \<open>
  \<open>main\<close> parses, reads \<open>args.db\<close>, calls \<open>create_db\<close>, and dispatches on
  \<open>args.command\<close>; with no branch taken it returns. The arguments of a call are
  evaluated left to right, so the first attribute that is missing raises. The result
  is how the process ends, the files, and standard output. \<open>default_db\<close> is the text of
  \<open>Path.cwd() / "trains.db"\<close>.
\<close>

definition run_add :: "namespace \<Rightarrow> filesystem \<Rightarrow> path \<Rightarrow> (error + unit) \<times> filesystem" where
  "run_add args fs db_path =
     (case getattr args ''punkt_nazn'' of
        Inl e \<Rightarrow> (Inl e, fs)
      | Inr punkt_nazn \<Rightarrow>
          (case getattr args ''nomer'' of
             Inl e \<Rightarrow> (Inl e, fs)
           | Inr nomer \<Rightarrow>
               (case getattr args ''time'' of
                  Inl e \<Rightarrow> (Inl e, fs)
                | Inr time \<Rightarrow> add_train fs db_path punkt_nazn nomer time)))"

definition run_display :: "filesystem \<Rightarrow> path \<Rightarrow> stdout \<Rightarrow> (error + unit) \<times> filesystem \<times> stdout" where
  "run_display fs db_path out =
     (case select_all fs db_path of
        (Inl e, fs') \<Rightarrow> (Inl e, fs', out)
      | (Inr trains, fs') \<Rightarrow>
          (case display_trains trains out of (r, out') \<Rightarrow> (r, fs', out')))"

definition run_select :: "namespace \<Rightarrow> filesystem \<Rightarrow> path \<Rightarrow> stdout \<Rightarrow> (error + unit) \<times> filesystem \<times> stdout" where
  "run_select args fs db_path out =
     (case getattr args ''select'' of
        Inl e \<Rightarrow> (Inl e, fs, out)
      | Inr sel \<Rightarrow>
          (case select_by_num fs db_path sel of
             (Inl e, fs') \<Rightarrow> (Inl e, fs', out)
           | (Inr trains, fs') \<Rightarrow>
               (case display_trains trains out of (r, out') \<Rightarrow> (r, fs', out'))))"

definition path_of :: "pyval \<Rightarrow> error + path" where
  "path_of v = (case v of PStr s \<Rightarrow> Inr s | _ \<Rightarrow> Inl TypeError)"

definition main :: "pystr \<Rightarrow> pystr list \<Rightarrow> filesystem \<Rightarrow> stdout \<Rightarrow> (error + unit) \<times> filesystem \<times> stdout" where
  "main default_db command_line fs out =
     (case parse_args default_db command_line out of
        (Inl e, out1) \<Rightarrow> (Inl e, fs, out1)
      | (Inr args, out1) \<Rightarrow>
     (case getattr args ''db'' of
        Inl e \<Rightarrow> (Inl e, fs, out1)
      | Inr db \<Rightarrow>
     (case path_of db of
        Inl e \<Rightarrow> (Inl e, fs, out1)
      | Inr db_path \<Rightarrow>
     (case create_db fs db_path of
        (Inl e, fs1) \<Rightarrow> (Inl e, fs1, out1)
      | (Inr u, fs1) \<Rightarrow>
     (case getattr args ''command'' of
        Inl e \<Rightarrow> (Inl e, fs1, out1)
      | Inr command \<Rightarrow>
          if command = PStr (ascii ''add'') then
            (case run_add args fs1 db_path of (r, fs2) \<Rightarrow> (r, fs2, out1))
          else if command = PStr (ascii ''display'') then run_display fs1 db_path out1
          else if command = PStr (ascii ''select'') then run_select args fs1 db_path out1
          else (Inr (), fs1, out1))))))"

text \<open>
  The exit status of the process: 0 on return, the status argparse exits with, 1 for
  an exception that reaches the top.
\<close>

fun exit_status :: "error + unit \<Rightarrow> nat option" where
  "exit_status (Inr u) = Some 0"
| "exit_status (Inl (SystemExit n)) = Some n"
| "exit_status (Inl Unsupported) = None"
| "exit_status (Inl e) = Some 1"

section \<open>Predicates and sample data used in the statements\<close>










text \<open>
  A path at which \<open>create_db\<close> can work: there is no file yet and one can be created,
  or there is a database none of whose indices is named \<open>groups\<close> or \<open>students\<close>.
\<close>

definition openable :: "disk \<Rightarrow> path \<Rightarrow> bool" where
  "openable d p =
     (case entry_at d p of
        Absent \<Rightarrow> True
      | DataFile db ix \<Rightarrow> ''groups'' \<notin> set ix \<and> ''students'' \<notin> set ix
      | _ \<Rightarrow> False)"





text \<open>The databases of a disk: what a \<open>filesystem\<close> keeps of it.\<close>

definition databases :: "disk \<Rightarrow> filesystem" where
  "databases d p = (case entry_at d p of DataFile db ix \<Rightarrow> Some db | _ \<Rightarrow> None)"

text \<open>
  The tables of a database after the two statements of \<open>create_db\<close> have run on it.
\<close>

definition initialised :: "database \<Rightarrow> database" where
  "initialised db =
     exec_create ''students'' students_columns [(''train_id'', ''groups'', ''train_id'')]
       (exec_create ''groups'' groups_columns [] db)"

text \<open>
  The files after \<open>create_db\<close> has run on a path that had no file: the freshly
  initialised database, with zero records.
\<close>

definition fresh :: "filesystem \<Rightarrow> path \<Rightarrow> filesystem" where
  "fresh fs p = snd (create_db (fs(p := None)) p)"

text \<open>
  A database that \<open>create_db\<close> cannot produce: its tables and columns carry the names
  the query of \<open>select_all\<close> uses. One train to Moscow, number 42, departing at 800,
  joined through the key 7 to a group titled 5.
\<close>

definition as_queried :: database where
  "as_queried =
     [''trains'' \<mapsto>
        \<lparr>tbl_columns = map plain_column
                         [''trains_punkt'', ''trains_nomer'', ''train_nomer'', ''train_time''],
         tbl_foreign = [],
         tbl_rows = [[SText (ascii ''Moscow''), SInt 7, SInt 42, SInt 800]]\<rparr>,
      ''groups'' \<mapsto>
        \<lparr>tbl_columns = map plain_column [''group_title'', ''trains_nomer''],
         tbl_foreign = [],
         tbl_rows = [[SInt 5, SInt 7]]\<rparr>]"

text \<open>A path and a command line used as concrete inputs.\<close>

definition trains_db :: path where
  "trains_db = ascii ''/home/user/trains.db''"

definition add_moscow :: "pystr list" where
  "add_moscow = [ascii ''add'', ascii ''-p'', ascii ''Moscow'', ascii ''-n'', ascii ''42'',
                 ascii ''-t'', ascii ''800'']"

section \<open>The table renderer prints a table, or nothing, or stops at a value it cannot format\<close>















section \<open>The schema initialiser is idempotent where the path opens\<close>

lemma exec_create_noop: "db name \<noteq> None \<Longrightarrow> exec_create name cols fks db = db"
  by (auto simp: exec_create_def)

lemma exec_create_defined: "exec_create name cols fks db name \<noteq> None"
  by (auto simp: exec_create_def Let_def split: option.splits)

lemma exec_create_keeps: "db other \<noteq> None \<Longrightarrow> exec_create name cols fks db other \<noteq> None"
  by (auto simp: exec_create_def Let_def split: option.splits)

lemma create_db_eq:
  "create_db fs p = (Inr (), fs(p \<mapsto> initialised (file_content fs p)))"
  by (simp add: create_db_def connect_def close_def initialised_def Let_def)

lemma initialised_tables:
  "initialised db ''groups'' \<noteq> None" "initialised db ''students'' \<noteq> None"
  unfolding initialised_def
  by (rule exec_create_keeps, rule exec_create_defined) (rule exec_create_defined)

lemma initialised_twice: "initialised (initialised db) = initialised db"
proof -
  have "exec_create ''groups'' groups_columns [] (initialised db) = initialised db"
    using initialised_tables(1) by (rule exec_create_noop)
  moreover have "exec_create ''students'' students_columns [(''train_id'', ''groups'', ''train_id'')]
       (initialised db) = initialised db"
    using initialised_tables(2) by (rule exec_create_noop)
  ultimately show ?thesis
    by (simp add: initialised_def)
qed

lemma file_content_upd: "file_content (fs(p \<mapsto> db)) p = db"
  by (simp add: file_content_def)

text \<open>
  On a \<open>filesystem\<close>, whose paths all open, \<open>create_db\<close> cannot fail, and a second call
  changes nothing.
\<close>

lemma create_db_twice:
  "fst (create_db fs p) = Inr ()
   \<and> snd (create_db (snd (create_db fs p)) p) = snd (create_db fs p)"
  by (simp add: create_db_eq file_content_upd initialised_twice)

text \<open>What \<open>create_db_at\<close> does where the path opens: both tables are created in the database found.\<close>

lemma create_tables_at:
  assumes "''groups'' \<notin> set ix" and "''students'' \<notin> set ix"
  shows "create_table_at ''groups'' groups_columns [] (DataFile db ix) =
           Inr (DataFile (exec_create ''groups'' groups_columns [] db) ix)"
    and "create_table_at ''students'' students_columns [(''train_id'', ''groups'', ''train_id'')]
           (DataFile (exec_create ''groups'' groups_columns [] db) ix) =
           Inr (DataFile (initialised db) ix)"
  using assms by (simp_all add: create_table_at_def initialised_def)


lemma openable_path: "openable d p \<Longrightarrow> p \<noteq> []"
  by (auto simp: openable_def entry_at_def)




text \<open>
  Where the path opens, \<open>create_db_at\<close> is \<open>create_db\<close> on the databases of the disk.
\<close>

lemma create_db_at_agrees:
  assumes "openable d p"
  shows "fst (create_db_at d p) = fst (create_db (databases d) p)
   \<and> databases (snd (create_db_at d p)) = snd (create_db (databases d) p)"
proof -
  have p: "p \<noteq> []"
    using assms by (rule openable_path)
  show ?thesis
  proof (cases "entry_at d p")
    case Absent
    have run: "create_db_at d p = (Inr (), d(p := DataFile (initialised Map.empty) []))"
      using create_tables_at [of "[]" Map.empty]
      by (simp add: create_db_at_def connect_at_def Absent)
    have content: "file_content (databases d) p = Map.empty"
      by (simp add: file_content_def databases_def Absent)
    have "databases (d(p := DataFile (initialised Map.empty) [])) =
        (databases d)(p \<mapsto> initialised Map.empty)"
      using p by (auto simp: databases_def entry_at_def fun_eq_iff)
    then show ?thesis
      by (simp add: run create_db_eq content)
  next
    case (DataFile db ix)
    with assms have ix: "''groups'' \<notin> set ix" "''students'' \<notin> set ix"
      by (simp_all add: openable_def)
    have run: "create_db_at d p = (Inr (), d(p := DataFile (initialised db) ix))"
      using create_tables_at [OF ix, of db]
      by (simp add: create_db_at_def connect_at_def DataFile)
    have content: "file_content (databases d) p = db"
      by (simp add: file_content_def databases_def DataFile)
    have "databases (d(p := DataFile (initialised db) ix)) = (databases d)(p \<mapsto> initialised db)"
      using p by (auto simp: databases_def entry_at_def fun_eq_iff)
    then show ?thesis
      by (simp add: run create_db_eq content)
  qed (use assms in \<open>simp_all add: openable_def\<close>)
qed

section \<open>The readers never write\<close>

lemma execute_select_same:
  "execute (Select cols frm join wher) params c = Inr (rows, c') \<Longrightarrow> c' = c"
  by (auto split: sum.splits)

lemma close_connect: "close fs p (connect fs p) = fs(p \<mapsto> file_content fs p)"
  by (simp add: close_def connect_def)

lemma file_content_touch: "file_content (fs(p \<mapsto> file_content fs p)) q = file_content fs q"
  by (simp add: file_content_def)

lemma select_all_files: "snd (select_all fs p) = fs(p \<mapsto> file_content fs p)"
  by (auto simp: select_all_def Let_def close_connect split: sum.splits dest: execute_select_same)

lemma select_by_num_files: "snd (select_by_num fs p n) = fs(p \<mapsto> file_content fs p)"
  by (auto simp: select_by_num_def Let_def close_connect split: sum.splits dest: execute_select_same)

text \<open>
  Claim C10. For every state of the files, every path \<open>p\<close> read and every filter, the
  tables and rows stored under any path \<open>q\<close> after \<open>select_all\<close> or \<open>select_by_num\<close>
  are the ones stored there before the call, whether the call returns or raises.
\<close>

theorem reads_do_not_mutate:
  "file_content (snd (select_all fs p)) q = file_content fs q
   \<and> file_content (snd (select_by_num fs p n)) q = file_content fs q"
  by (simp add: select_all_files select_by_num_files file_content_touch)

section \<open>\<open>select_by_num\<close> names a table that is not in its \<open>FROM\<close> clause\<close>

lemma resolve_error: "resolve sc c = Inl e \<Longrightarrow> \<exists>x. e = OperationalError x"
  by (cases c) (auto split: option.splits list.splits)

lemma resolve_all_error: "resolve_all sc cs = Inl e \<Longrightarrow> \<exists>x. e = OperationalError x"
proof (induction cs arbitrary: e)
  case Nil
  then show ?case by simp
next
  case (Cons c cs)
  then show ?case
    by (auto split: sum.splits dest: resolve_error)
qed

lemma from_tables_error: "from_tables frm join db = Inl e \<Longrightarrow> \<exists>x. e = OperationalError x"
  by (auto simp: from_tables_def split: option.splits prod.splits)

lemma from_tables_join:
  "from_tables frm (Some (u, a, b)) db = Inr (t1, j) \<Longrightarrow> \<exists>t2. j = Some (u, t2)"
  by (auto simp: from_tables_def split: option.splits)

lemma students_out_of_scope:
  "\<exists>x. resolve_all [(''trains'', cs1), (''groups'', cs2)] [a, TCol ''students'' c] = Inl (OperationalError x)"
proof (cases "resolve [(''trains'', cs1), (''groups'', cs2)] a")
  case (Inl e)
  then show ?thesis
    using resolve_error [OF Inl] by auto
next
  case (Inr i)
  then show ?thesis by simp
qed

lemma exec_select_by_num_fails:
  "\<exists>x. exec_select cols ''trains''
          (Some (''groups'', a, TCol ''students'' c)) wher params db = Inl (OperationalError x)"
proof (cases "from_tables ''trains'' (Some (''groups'', a, TCol ''students'' c)) db")
  case (Inl e)
  then show ?thesis
    using from_tables_error [OF Inl] by (auto simp: exec_select_def)
next
  case (Inr r)
  obtain t1 j where r: "r = (t1, j)" by (cases r)
  obtain t2 where j: "j = Some (''groups'', t2)"
    using from_tables_join Inr r by blast
  have sc: "select_scope ''trains'' t1 j = [(''trains'', column_names t1), (''groups'', column_names t2)]"
    by (simp add: select_scope_def j)
  obtain x where on: "resolve_all (select_scope ''trains'' t1 j)
      (on_columns (Some (''groups'', a, TCol ''students'' c))) = Inl (OperationalError x)"
    using students_out_of_scope [of "column_names t1" "column_names t2" a c]
    by (auto simp: sc on_columns_def)
  show ?thesis
  proof (cases "resolve_all (select_scope ''trains'' t1 j) cols")
    case (Inl e)
    then show ?thesis
      using resolve_all_error [OF Inl] Inr r by (auto simp: exec_select_def)
  next
    case (Inr out_ix)
    then show ?thesis
      using \<open>from_tables ''trains'' (Some (''groups'', a, TCol ''students'' c)) db = Inr r\<close> r on
      by (simp add: exec_select_def)
  qed
qed

text \<open>
  Claim C6, as the code behaves. For every state of the files, every path and every
  filter value, \<open>select_by_num\<close> raises \<open>sqlite3.OperationalError\<close> and returns no
  record at all: its \<open>ON\<close> clause reads \<open>students.train_nomer\<close>, and \<open>students\<close> is not
  one of the two tables of the \<open>FROM\<close> clause, whatever tables the file holds.
\<close>

theorem select_by_num_always_raises:
  "\<exists>x. select_by_num fs p n = (Inl (OperationalError x), fs(p \<mapsto> file_content fs p))"
proof -
  obtain x where "exec_select [TCol ''trains'' ''train_punkt'', TCol ''groups'' ''group_title'',
                      TCol ''trains'' ''train_nomer''] ''trains''
          (Some (''groups'', TCol ''groups'' ''train_nomer'', TCol ''students'' ''train_nomer''))
          (Some (TCol ''groups'' ''group_title'')) [n] (working (connect fs p)) = Inl (OperationalError x)"
    using exec_select_by_num_fails by blast
  then show ?thesis
    by (simp add: select_by_num_def Let_def close_def connect_def)
qed

section \<open>The freshly initialised database\<close>

text \<open>
  \<open>create_db\<close> creates \<open>groups\<close> and \<open>students\<close>; the writer and both readers work on a
  table \<open>trains\<close>, which the file does not hold.
\<close>

lemma fresh_eq: "fresh fs p = fs(p \<mapsto> initialised Map.empty)"
  by (simp add: fresh_def create_db_eq file_content_def)

lemma fresh_content: "file_content (fresh fs p) p = initialised Map.empty"
  by (simp add: fresh_eq file_content_def)

lemma initialised_empty_tables:
  "initialised Map.empty ''trains'' = None"
  "initialised Map.empty ''groups'' =
     Some \<lparr>tbl_columns = groups_columns, tbl_foreign = [], tbl_rows = []\<rparr>"
  "initialised Map.empty ''students'' =
     Some \<lparr>tbl_columns = students_columns,
           tbl_foreign = [(''train_id'', ''groups'', ''train_id'')], tbl_rows = []\<rparr>"
  by (simp_all add: initialised_def exec_create_def Let_def groups_columns_def students_columns_def)

lemma exec_select_no_table:
  "db frm = None \<Longrightarrow>
   exec_select cols frm join wher params db = Inl (OperationalError (NoSuchTable frm))"
  by (simp add: exec_select_def from_tables_def)

lemma close_fresh: "close (fresh fs p) p (connect (fresh fs p) p) = fresh fs p"
  by (simp add: close_def connect_def fresh_eq file_content_def)

lemma working_fresh: "working (connect (fresh fs p) p) = initialised Map.empty"
  by (simp add: connect_def fresh_content)

lemma add_train_fresh:
  "add_train (fresh fs p) p punkt_nazn nomer time =
     (Inl (OperationalError (NoSuchTable ''trains'')), fresh fs p)"
  by (simp add: add_train_def Let_def working_fresh close_fresh
        exec_select_no_table initialised_empty_tables)

lemma select_all_fresh:
  "select_all (fresh fs p) p = (Inl (OperationalError (NoSuchTable ''trains'')), fresh fs p)"
  by (simp add: select_all_def Let_def working_fresh close_fresh
        exec_select_no_table initialised_empty_tables)

lemma select_by_num_fresh:
  "select_by_num (fresh fs p) p n = (Inl (OperationalError (NoSuchTable ''trains'')), fresh fs p)"
  by (simp add: select_by_num_def Let_def working_fresh close_fresh
        exec_select_no_table initialised_empty_tables)

lemma run_display_fresh:
  "run_display (fresh fs p) p out =
     (Inl (OperationalError (NoSuchTable ''trains'')), fresh fs p, out)"
  by (simp add: run_display_def select_all_fresh)

text \<open>
  Claim C2, as the code behaves. On a freshly initialised database, for every
  destination, number and time, \<open>add_train\<close> does not return: it raises
  \<open>OperationalError\<close> (no such table: trains) at its first statement and leaves the
  file as it was, with no row in \<open>students\<close>, no row in \<open>groups\<close> and no table \<open>trains\<close>.
\<close>

theorem add_train_stores_nothing:
  "add_train (fresh fs p) p punkt_nazn nomer time =
     (Inl (OperationalError (NoSuchTable ''trains'')), fresh fs p)
   \<and> map_option tbl_rows (file_content (fresh fs p) p ''students'') = Some []
   \<and> map_option tbl_rows (file_content (fresh fs p) p ''groups'') = Some []
   \<and> file_content (fresh fs p) p ''trains'' = None"
  by (simp add: add_train_fresh fresh_content initialised_empty_tables)

text \<open>
  Claim C1, as the code behaves. On a freshly initialised database, adding a record
  raises, and reading all records for display afterwards raises as well, with nothing
  printed: the record never reaches the output.
\<close>

theorem add_then_display_shows_nothing:
  "fst (add_train (fresh fs p) p punkt_nazn nomer time) =
     Inl (OperationalError (NoSuchTable ''trains''))
   \<and> run_display (snd (add_train (fresh fs p) p punkt_nazn nomer time)) p out =
       (Inl (OperationalError (NoSuchTable ''trains'')), fresh fs p, out)"
  by (simp add: add_train_fresh run_display_fresh)

text \<open>
  On a database whose tables do carry the names the query of \<open>select_all\<close> uses, the
  query returns, and the third column it selects is the train number.
\<close>

lemma select_all_as_queried:
  "select_all (fs(p \<mapsto> as_queried)) p =
     (Inr [[''punkt_nazn'' \<mapsto> PStr (ascii ''Moscow''), ''nomer'' \<mapsto> PInt 5, ''time'' \<mapsto> PInt 42]],
      fs(p \<mapsto> as_queried))"
  by (simp add: select_all_def Let_def connect_def close_def file_content_def exec_select_def
        from_tables_def select_scope_def on_columns_def where_columns_def column_names_def
        as_queried_def plain_column_def joined_rows_def row_selected_def sql_eq_def cell_def)

text \<open>
  Claim C7, as the code behaves. On a freshly initialised database both readers raise
  and return no record. Where \<open>select_all\<close> does return (the database \<open>as_queried\<close>:
  a train to Moscow, number 42, time 800, in a group titled 5), the field \<open>time\<close> of
  the record holds the train number 42 and the field \<open>nomer\<close> the group title 5; the
  stored time 800 is not in the record.
\<close>

theorem readers_raise_or_misplace_fields:
  "select_all (fresh fs p) p = (Inl (OperationalError (NoSuchTable ''trains'')), fresh fs p)
   \<and> select_by_num (fresh fs p) p n =
       (Inl (OperationalError (NoSuchTable ''trains'')), fresh fs p)
   \<and> fst (select_all (fs(p \<mapsto> as_queried)) p) =
       Inr [[''punkt_nazn'' \<mapsto> PStr (ascii ''Moscow''), ''nomer'' \<mapsto> PInt 5, ''time'' \<mapsto> PInt 42]]"
  by (simp add: select_all_fresh select_by_num_fresh select_all_as_queried)

section \<open>The command line\<close>

lemma dest_of_values:
  "dest_of [''--db''] = ''db''"
  "dest_of [''-p'', ''--punkt''] = ''punkt''"
  "dest_of [''-n'', ''--nomer''] = ''nomer''"
  "dest_of [''-t'', ''--time''] = ''time''"
  "dest_of [''-s'', ''--select''] = ''select''"
  by (simp_all add: dest_of_def)

lemma ascii_inject: "ascii s = ascii t \<longleftrightarrow> s = t"
  by (simp add: ascii_def inj_map_eq_map inj_on_def)

lemma parse_display:
  "parse_args default_db [ascii ''display''] out =
     (Inr [''db'' \<mapsto> PStr default_db, ''command'' \<mapsto> PStr (ascii ''display'')], out)"
  by (simp add: parse_args_def subparsers_def display_parser_def file_parser_def
        parse_options_def defaults_def dest_of_values ascii_inject)
     (simp add: ascii_def)

text \<open>
  Claim C4, as the code behaves. \<open>display\<close> on a path that had no file: the schema is
  initialised, nothing is printed, and the command does not complete normally: it
  raises \<open>OperationalError\<close> (no such table: trains).
\<close>

theorem display_on_fresh_database_raises:
  "main default_db [ascii ''display''] (fs(default_db := None)) out =
     (Inl (OperationalError (NoSuchTable ''trains'')), fresh fs default_db, out)"
proof -
  have c: "create_db (fs(default_db := None)) default_db = (Inr (), fresh fs default_db)"
    by (simp add: fresh_def create_db_eq)
  show ?thesis
    by (simp add: main_def parse_display getattr_def path_of_def c ascii_inject run_display_fresh)
qed

text \<open>
  With no subcommand the namespace has no attribute \<open>db\<close>: \<open>main\<close> raises before it
  initialises the schema.
\<close>

lemma main_without_subcommand:
  "main default_db [] fs out = (Inl (AttributeError ''db''), fs, out)"
  by (simp add: main_def parse_args_def getattr_def)

text \<open>
  Claim C5 fails for an unknown subcommand: \<open>trains bogus\<close> exits with status 2, and
  the files are untouched (no schema is initialised).
\<close>

theorem unknown_subcommand_counterexample:
  "exit_status (fst (main trains_db [ascii ''bogus''] Map.empty [])) = Some 2
   \<and> fst (snd (main trains_db [ascii ''bogus''] Map.empty [])) = Map.empty"
  by (simp add: main_def parse_args_def subparsers_def ascii_def)

text \<open>
  Claim C5, amended. When the first word of the command line is no option (it does
  not start with a dash) and is none of \<open>add\<close>, \<open>display\<close>, \<open>select\<close>, argparse rejects
  it: no operation is performed, the schema is not initialised (the files are
  untouched), nothing is printed on standard output, and the process exits with
  status 2.
\<close>

theorem unknown_subcommand_rejected:
  assumes "take 1 tok \<noteq> [45]"
    and "tok \<noteq> ascii ''add''" and "tok \<noteq> ascii ''display''" and "tok \<noteq> ascii ''select''"
  shows "main default_db (tok # rest) fs out = (Inl (SystemExit 2), fs, out)"
proof -
  have "tok \<noteq> ascii ''--version''"
    using assms(1) by (auto simp: ascii_def)
  then show ?thesis
    using assms by (simp add: main_def parse_args_def subparsers_def)
qed

theorem unknown_subcommand_rejected_witness:
  "take 1 (ascii ''remove'') \<noteq> [45]
   \<and> ascii ''remove'' \<noteq> ascii ''add'' \<and> ascii ''remove'' \<noteq> ascii ''display''
   \<and> ascii ''remove'' \<noteq> ascii ''select''
   \<and> main trains_db [ascii ''remove'', ascii ''--db'', ascii ''x.db''] Map.empty [] =
       (Inl (SystemExit 2), Map.empty, [])"
proof -
  have h1: "take 1 (ascii ''remove'') \<noteq> [45]"
    by (simp add: ascii_def)
  have h2: "ascii ''remove'' \<noteq> ascii ''add''"
    and h3: "ascii ''remove'' \<noteq> ascii ''display''"
    and h4: "ascii ''remove'' \<noteq> ascii ''select''"
    by (simp_all add: ascii_inject)
  show ?thesis
    using h1 h2 h3 h4
      unknown_subcommand_rejected [OF h1 h2 h3 h4, of trains_db "[ascii ''--db'', ascii ''x.db'']"
        Map.empty "[]"]
    by simp
qed

text \<open>
  What the \<open>add\<close> subparser stores: only the attributes \<open>db\<close>, \<open>punkt\<close>, \<open>nomer\<close> and
  \<open>time\<close>, and \<open>db\<close> always as a text.
\<close>

lemma stores_entries:
  "stores spec ps = Inr given \<Longrightarrow> (d, x) \<in> set given \<Longrightarrow>
   \<exists>a v. a \<in> set spec \<and> d = dest_of (option_strings a) \<and> convert a v = Inr x"
proof (induction ps arbitrary: given)
  case Nil
  then show ?case by simp
next
  case (Cons fv ps)
  obtain flag v where fv: "fv = (flag, v)" by (cases fv)
  from Cons.prems(1) fv obtain a y others where
    a: "find (\<lambda>a. flag \<in> set (map ascii (option_strings a))) spec = Some a"
    and y: "convert a v = Inr y"
    and others: "stores spec ps = Inr others"
    and given: "given = (dest_of (option_strings a), y) # others"
    by (auto split: option.splits sum.splits)
  have mem: "a \<in> set spec"
    using a by (auto simp: find_Some_iff)
  show ?case
  proof (cases "(d, x) = (dest_of (option_strings a), y)")
    case True
    then show ?thesis using mem y by blast
  next
    case False
    then have "(d, x) \<in> set others"
      using Cons.prems(2) given by auto
    then show ?thesis
      using Cons.IH [OF others] by blast
  qed
qed

lemma convert_text: "\<not> arg_int a \<Longrightarrow> convert a v = Inr x \<Longrightarrow> \<exists>s. x = PStr s"
  by (auto simp: convert_def split: if_splits)

lemma add_parser_entries:
  assumes "stores (add_parser default_db) ps = Inr given" and "(d, x) \<in> set given"
  shows "d \<noteq> ''punkt_nazn'' \<and> (d = ''db'' \<longrightarrow> (\<exists>s. x = PStr s))"
proof -
  obtain a v where a: "a \<in> set (add_parser default_db)"
    and d: "d = dest_of (option_strings a)" and c: "convert a v = Inr x"
    using stores_entries [OF assms] by blast
  from a d c show ?thesis
    by (auto simp: add_parser_def file_parser_def dest_of_values convert_def
          split: if_splits sum.splits)
qed

lemma fold_store_keeps:
  assumes "\<forall>(d, x) \<in> set given. d \<noteq> ''punkt_nazn'' \<and> (d = ''db'' \<longrightarrow> (\<exists>s. x = PStr s))"
    and "ns ''punkt_nazn'' = None" and "\<exists>s. ns ''db'' = Some (PStr s)"
  shows "fold (\<lambda>(d, x) ns. ns(d \<mapsto> x)) given ns ''punkt_nazn'' = None
         \<and> (\<exists>s. fold (\<lambda>(d, x) ns. ns(d \<mapsto> x)) given ns ''db'' = Some (PStr s))"
  using assms
proof (induction given arbitrary: ns)
  case Nil
  then show ?case by simp
next
  case (Cons dx given)
  obtain d x where dx: "dx = (d, x)" by (cases dx)
  have step: "(ns(d \<mapsto> x)) ''punkt_nazn'' = None \<and> (\<exists>s. (ns(d \<mapsto> x)) ''db'' = Some (PStr s))"
    using Cons.prems dx by auto
  have rest: "\<forall>(d, x) \<in> set given. d \<noteq> ''punkt_nazn'' \<and> (d = ''db'' \<longrightarrow> (\<exists>s. x = PStr s))"
    using Cons.prems(1) by simp
  show ?case
    using Cons.IH [OF rest, of "ns(d \<mapsto> x)"] step dx by simp
qed

lemma add_namespace:
  assumes "parse_options (add_parser default_db) rest = Inr ns"
  shows "ns ''punkt_nazn'' = None \<and> (\<exists>s. ns ''db'' = Some (PStr s))"
proof -
  from assms obtain ps given where ps: "pairs rest = Some ps"
    and given: "stores (add_parser default_db) ps = Inr given"
    and ns: "ns = fold (\<lambda>(d, x) ns. ns(d \<mapsto> x)) given (defaults (add_parser default_db))"
    by (auto simp: parse_options_def split: option.splits sum.splits if_splits)
  have entries: "\<forall>(d, x) \<in> set given. d \<noteq> ''punkt_nazn'' \<and> (d = ''db'' \<longrightarrow> (\<exists>s. x = PStr s))"
    using add_parser_entries [OF given] by auto
  have d1: "defaults (add_parser default_db) ''punkt_nazn'' = None"
    by (simp add: defaults_def add_parser_def file_parser_def dest_of_values)
  have d2: "\<exists>s. defaults (add_parser default_db) ''db'' = Some (PStr s)"
    by (simp add: defaults_def add_parser_def file_parser_def dest_of_values)
  show ?thesis
    unfolding ns using fold_store_keeps [OF entries d1 d2] .
qed

text \<open>
  Claim C3, as the code behaves. For every command line \<open>add ...\<close> that argparse
  accepts, the namespace has no attribute \<open>punkt_nazn\<close> (the destination is stored
  under \<open>punkt\<close>); \<open>main\<close> initialises the schema and then raises \<open>AttributeError\<close> while
  it evaluates the arguments of the call: \<open>add_train\<close> is never reached, and the files
  are as \<open>create_db\<close> left them.
\<close>

theorem add_never_reaches_add_train:
  assumes "parse_args default_db (ascii ''add'' # rest) out = (Inr args, out')"
  shows "\<exists>db_path. args ''db'' = Some (PStr db_path)
     \<and> args ''punkt_nazn'' = None
     \<and> main default_db (ascii ''add'' # rest) fs out =
         (Inl (AttributeError ''punkt_nazn''), snd (create_db fs db_path), out)"
proof -
  from assms obtain ns where ns: "parse_options (add_parser default_db) rest = Inr ns"
    and args: "args = ns(''command'' \<mapsto> PStr (ascii ''add''))" and out: "out' = out"
    by (auto simp: parse_args_def subparsers_def ascii_def split: if_splits sum.splits)
  obtain db_path where db: "ns ''db'' = Some (PStr db_path)" and p: "ns ''punkt_nazn'' = None"
    using add_namespace [OF ns] by blast
  have a1: "args ''db'' = Some (PStr db_path)" and a2: "args ''punkt_nazn'' = None"
    and a3: "args ''command'' = Some (PStr (ascii ''add''))"
    using db p by (simp_all add: args)
  have "main default_db (ascii ''add'' # rest) fs out =
         (Inl (AttributeError ''punkt_nazn''), snd (create_db fs db_path), out)"
    using assms a1 a2 a3
    by (simp add: main_def getattr_def path_of_def create_db_eq run_add_def out)
  then show ?thesis using a1 a2 by blast
qed

lemma int_of_token_values:
  "int_of_token (ascii ''42'') = Inr 42"
  "int_of_token (ascii ''800'') = Inr 800"
  by (simp_all add: int_of_token_def int_of_digits_def int_max_str_digits_def ascii_def
        is_digit_def decimal_def)

lemma stores_add_moscow:
  "stores (add_parser trains_db)
     [(ascii ''-p'', ascii ''Moscow''), (ascii ''-n'', ascii ''42''), (ascii ''-t'', ascii ''800'')] =
   Inr [(''punkt'', PStr (ascii ''Moscow'')), (''nomer'', PInt 42), (''time'', PInt 800)]"
  by (simp add: add_parser_def file_parser_def ascii_inject convert_def int_of_token_values
        dest_of_values)
     (simp add: ascii_def)

lemma parse_add_moscow:
  "\<exists>args. parse_args trains_db add_moscow [] = (Inr args, [])
          \<and> args ''db'' = Some (PStr trains_db) \<and> args ''punkt'' = Some (PStr (ascii ''Moscow''))
          \<and> args ''nomer'' = Some (PInt 42) \<and> args ''time'' = Some (PInt 800)"
proof -
  have v: "add_moscow \<noteq> [ascii ''--version'']" and d: "take 1 (ascii ''add'') \<noteq> [45]"
    by (simp_all add: add_moscow_def ascii_def)
  have opts: "parse_options (add_parser trains_db) (tl add_moscow) =
      Inr (fold (\<lambda>(d, x) ns. ns(d \<mapsto> x))
             [(''punkt'', PStr (ascii ''Moscow'')), (''nomer'', PInt 42), (''time'', PInt 800)]
             (defaults (add_parser trains_db)))"
    unfolding parse_options_def add_moscow_def
    by (simp add: stores_add_moscow del: stores.simps)
       (simp add: add_parser_def file_parser_def dest_of_values)
  have dflt: "defaults (add_parser trains_db) ''db'' = Some (PStr trains_db)"
    by (simp add: defaults_def add_parser_def file_parser_def dest_of_values)
  have "parse_args trains_db add_moscow [] =
      (Inr ((fold (\<lambda>(d, x) ns. ns(d \<mapsto> x))
             [(''punkt'', PStr (ascii ''Moscow'')), (''nomer'', PInt 42), (''time'', PInt 800)]
             (defaults (add_parser trains_db)))(''command'' \<mapsto> PStr (ascii ''add''))), [])"
    using v d opts unfolding parse_args_def
    by (simp add: add_moscow_def subparsers_def)
  then show ?thesis
    using dflt by simp
qed

theorem add_never_reaches_add_train_witness:
  "main trains_db add_moscow Map.empty [] =
     (Inl (AttributeError ''punkt_nazn''), snd (create_db Map.empty trains_db), [])"
proof -
  obtain args where parsed: "parse_args trains_db (ascii ''add'' # tl add_moscow) [] = (Inr args, [])"
    and db: "args ''db'' = Some (PStr trains_db)"
    using parse_add_moscow by (auto simp: add_moscow_def)
  obtain db_path where "args ''db'' = Some (PStr db_path)"
    and run: "main trains_db (ascii ''add'' # tl add_moscow) Map.empty [] =
         (Inl (AttributeError ''punkt_nazn''), snd (create_db Map.empty db_path), [])"
    using add_never_reaches_add_train [OF parsed, of Map.empty] by blast
  with db have "db_path = trains_db" by simp
  with run show ?thesis by (simp add: add_moscow_def)
qed

end
